theory Spec2Isabelle
  imports Main "HOL-Library.Word"
begin

section \<open>Data model (types.ts)\<close>

text \<open>
  A file record is inspected only through its \<open>contents\<close> field. The declared type is
  \<open>Buffer\<close>, which is not checked at run time: the test suite passes a record whose
  \<open>contents\<close> is \<open>undefined\<close>. The field is one of the kinds of value that hashing tells
  apart: a byte sequence, a string (kept as its UTF-8 text, a character being a byte),
  the absent or undefined field, and any other value (\<open>null\<close>, a number, a boolean, a
  plain object).
\<close>

type_synonym Buffer = "8 word list"

datatype contents_value = Bytes Buffer | Str string | Undefined | OtherValue

record HasContents =
  contents :: contents_value

text \<open>
  \<open>FileDataCollection\<close> is a plain object keyed by path. It is kept as the list that
  \<open>Object.entries\<close> enumerates; an object holds each key once, which theorems that talk
  about the record stored under a path state as \<open>distinct (Object_keys files)\<close>.
\<close>

type_synonym FileDataCollection = "(string \<times> HasContents) list"

definition Object_keys :: "FileDataCollection \<Rightarrow> string list" where
  "Object_keys files = map fst files"

record ChangeTrackerConfig =
  historyPath :: "string option"
  enabled :: "bool option"

datatype FileChangeStatus = New | Modified | Unchanged | Untracked

text \<open>
  The values a property read can yield at run time. The history object comes out of
  \<open>JSON.parse\<close> unchecked, so a "previous fingerprint" is whatever JSON value (or
  inherited member) the read finds, not only a string. \<open>JNative k\<close> is the built-in
  object reached through the inherited member \<open>k\<close> of \<open>Object.prototype\<close>.
  JSON numbers are kept as integers: only being zero or not is ever observed.
\<close>

datatype jsvalue =
    JUndefined
  | JNull
  | JBool bool
  | JNum int
  | JStr string
  | JArr "jsvalue list"
  | JObj "(string \<times> jsvalue) list"
  | JNative string

record FileChangeState =
  status :: FileChangeStatus
  previousFingerprint :: jsvalue

type_synonym FileFingerprints = "string \<rightharpoonup> string"

type_synonym FileStates = "string \<rightharpoonup> FileChangeState"

datatype ChangeTrackerErrorType =
  HISTORY_PATH_NOT_SET | HISTORY_READ_ERROR | HISTORY_WRITE_ERROR

datatype io_error = ENOENT | EACCES | EISDIR | ENOSPC

text \<open>
  What a call can throw: a \<open>ChangeTrackerError\<close> with its type and optional cause,
  the \<open>TypeError\<close> (code \<open>ERR_INVALID_ARG_TYPE\<close>) that \<open>hash.update\<close> raises for an
  argument that is no byte sequence (the condition the specification calls
  \<open>InvalidInput\<close>), and the \<open>TypeError\<close> of reading a property of \<open>null\<close>.
\<close>

datatype error =
    ChangeTrackerError ChangeTrackerErrorType "io_error option"
  | InvalidArgType
  | NullPropertyRead

section \<open>JavaScript objects used as dictionaries\<close>

definition Object_prototype_names :: "string list" where
  "Object_prototype_names =
     [''constructor'', ''__defineGetter__'', ''__defineSetter__'', ''hasOwnProperty'',
      ''__lookupGetter__'', ''__lookupSetter__'', ''isPrototypeOf'',
      ''propertyIsEnumerable'', ''toString'', ''valueOf'', ''__proto__'',
      ''toLocaleString'']"

text \<open>
  \<open>obj[k]\<close> on a plain object with own properties \<open>own\<close>: the own property when
  there is one, else the member inherited from \<open>Object.prototype\<close>, else \<open>undefined\<close>.
\<close>

definition obj_get :: "(string \<rightharpoonup> jsvalue) \<Rightarrow> string \<Rightarrow> jsvalue" where
  "obj_get own k =
     (case own k of
        Some v \<Rightarrow> v
      | None \<Rightarrow> if k \<in> set Object_prototype_names then JNative k else JUndefined)"

text \<open>
  \<open>acc[k] = fp\<close> for a string \<open>fp\<close> on a plain object: it creates or overwrites the own
  property, except that assigning to \<open>__proto__\<close> (not an own property) runs the
  inherited setter, which ignores a value that is no object.
\<close>

definition obj_set_string :: "FileFingerprints \<Rightarrow> string \<Rightarrow> string \<Rightarrow> FileFingerprints" where
  "obj_set_string acc k fp =
     (if k = ''__proto__'' \<and> acc k = None then acc else acc(k \<mapsto> fp))"

definition own_values :: "FileFingerprints \<Rightarrow> (string \<rightharpoonup> jsvalue)" where
  "own_values fps = (\<lambda>k. map_option JStr (fps k))"

definition js_truthy :: "jsvalue \<Rightarrow> bool" where
  "js_truthy v =
     (case v of
        JUndefined \<Rightarrow> False
      | JNull \<Rightarrow> False
      | JBool b \<Rightarrow> b
      | JNum n \<Rightarrow> n \<noteq> 0
      | JStr s \<Rightarrow> s \<noteq> []
      | JArr xs \<Rightarrow> True
      | JObj kvs \<Rightarrow> True
      | JNative k \<Rightarrow> True)"

text \<open>
  \<open>a === b\<close> where \<open>a\<close> was read from the parsed history and \<open>b\<close> from the object of
  fresh fingerprints: primitives and built-ins compare by value; an array or object
  out of \<open>JSON.parse\<close> is a fresh reference, equal to nothing read elsewhere.
\<close>

definition js_strict_eq :: "jsvalue \<Rightarrow> jsvalue \<Rightarrow> bool" where
  "js_strict_eq a b =
     (case a of
        JArr xs \<Rightarrow> False
      | JObj kvs \<Rightarrow> False
      | _ \<Rightarrow> a = b)"

section \<open>The history file and the filesystem\<close>

text \<open>
  What \<open>JSON.parse\<close> makes of a file's text: it throws (\<open>Malformed\<close>) or returns a
  value. A returned \<open>null\<close> and a returned plain object (given by its own properties)
  are kept apart; any other root (array, string, number, boolean) is given by its
  property-read function, which never throws.
\<close>

datatype history =
    HNull
  | HObject "string \<rightharpoonup> jsvalue"
  | HOther "string \<Rightarrow> jsvalue"

datatype file_text = Malformed | Json history

text \<open>
  \<open>JSON.stringify(fingerprints, null, 2)\<close>: the text that parses back to an object with
  the same own string properties.
\<close>

definition JSON_stringify :: "FileFingerprints \<Rightarrow> file_text" where
  "JSON_stringify fps = Json (HObject (own_values fps))"

definition history_get :: "history \<Rightarrow> string \<Rightarrow> error + jsvalue" where
  "history_get h k =
     (case h of
        HNull \<Rightarrow> Inl NullPropertyRead
      | HObject own \<Rightarrow> Inr (obj_get own k)
      | HOther rd \<Rightarrow> Inr (rd k))"

datatype fs_kind = Reading | MakingDir | Writing | Removing

datatype fs_call =
    ReadFile string
  | MkdirDirname string
  | WriteFile string file_text
  | Rm string

text \<open>
  The world outside the tracker object: the files on disk (\<open>disk\<close>), the faults the
  environment raises (\<open>fault k p\<close>: the error of an operation of kind \<open>k\<close> on path
  \<open>p\<close>, if any: permissions, a full disk), the filesystem calls made so far
  (\<open>trace\<close>), and the store of \<open>Map\<close> objects with its next free address. Directories
  are not modelled, and a write that fails leaves the file as it was.
\<close>

record world =
  disk :: "string \<rightharpoonup> file_text"
  fault :: "fs_kind \<Rightarrow> string \<Rightarrow> io_error option"
  trace :: "fs_call list"
  heap :: "nat \<Rightarrow> FileStates"
  next_addr :: nat

definition readFile :: "string \<Rightarrow> world \<Rightarrow> (io_error + file_text) \<times> world" where
  "readFile p w =
     (let w' = w\<lparr>trace := trace w @ [ReadFile p]\<rparr> in
      case fault w Reading p of
        Some e \<Rightarrow> (Inl e, w')
      | None \<Rightarrow>
          (case disk w p of
             None \<Rightarrow> (Inl ENOENT, w')
           | Some c \<Rightarrow> (Inr c, w')))"

definition mkdir_dirname :: "string \<Rightarrow> world \<Rightarrow> (io_error + unit) \<times> world" where
  "mkdir_dirname p w =
     (let w' = w\<lparr>trace := trace w @ [MkdirDirname p]\<rparr> in
      case fault w MakingDir p of
        Some e \<Rightarrow> (Inl e, w')
      | None \<Rightarrow> (Inr (), w'))"

definition writeFile :: "string \<Rightarrow> file_text \<Rightarrow> world \<Rightarrow> (io_error + unit) \<times> world" where
  "writeFile p c w =
     (let w' = w\<lparr>trace := trace w @ [WriteFile p c]\<rparr> in
      case fault w Writing p of
        Some e \<Rightarrow> (Inl e, w')
      | None \<Rightarrow> (Inr (), w'\<lparr>disk := (disk w)(p \<mapsto> c)\<rparr>))"

text \<open>\<open>rm(p, {force: true})\<close>: a missing file is no error.\<close>

definition rm_force :: "string \<Rightarrow> world \<Rightarrow> (io_error + unit) \<times> world" where
  "rm_force p w =
     (let w' = w\<lparr>trace := trace w @ [Rm p]\<rparr> in
      case fault w Removing p of
        Some e \<Rightarrow> (Inl e, w')
      | None \<Rightarrow> (Inr (), w'\<lparr>disk := (disk w)(p := None)\<rparr>))"

text \<open>
  The error that saving to \<open>p\<close> meets in world \<open>w\<close>, if any: that of creating the
  directory, else that of the write.
\<close>

definition save_fault :: "world \<Rightarrow> string \<Rightarrow> io_error option" where
  "save_fault w p =
     (case fault w MakingDir p of
        Some e \<Rightarrow> Some e
      | None \<Rightarrow> fault w Writing p)"

section \<open>ChangeTrackerImpl (index.ts)\<close>

text \<open>
  The tracker object: its configuration and the address of its \<open>fileStates\<close> map.
  The digest \<open>createHash("md5") ... digest("hex")\<close> is a parameter \<open>md5\<close> of the model.
\<close>

record ChangeTrackerImpl =
  config :: ChangeTrackerConfig
  fileStates :: nat

definition new_ChangeTrackerImpl ::
  "ChangeTrackerConfig \<Rightarrow> world \<Rightarrow> ChangeTrackerImpl \<times> world" where
  "new_ChangeTrackerImpl cfg w =
     (\<lparr>config = cfg\<lparr>enabled := Some (case enabled cfg of None \<Rightarrow> True | Some b \<Rightarrow> b)\<rparr>,
       fileStates = next_addr w\<rparr>,
      w\<lparr>heap := (heap w)(next_addr w := Map.empty), next_addr := Suc (next_addr w)\<rparr>)"

text \<open>\<open>!this.config.enabled\<close> and \<open>!this.config.historyPath\<close>.\<close>

definition not_enabled :: "ChangeTrackerImpl \<Rightarrow> bool" where
  "not_enabled t = (case enabled (config t) of None \<Rightarrow> True | Some b \<Rightarrow> \<not> b)"

definition no_historyPath :: "ChangeTrackerImpl \<Rightarrow> bool" where
  "no_historyPath t = (case historyPath (config t) of None \<Rightarrow> True | Some p \<Rightarrow> p = [])"

text \<open>
  \<open>hash.update(data)\<close> takes a byte sequence or a string, which it hashes as its UTF-8
  bytes, and throws for any other value: \<open>update_data\<close> is the bytes it hashes, if any.
\<close>

definition utf8 :: "string \<Rightarrow> Buffer" where
  "utf8 s = map of_char s"

definition update_data :: "contents_value \<Rightarrow> Buffer option" where
  "update_data v =
     (case v of
        Bytes b \<Rightarrow> Some b
      | Str s \<Rightarrow> Some (utf8 s)
      | Undefined \<Rightarrow> None
      | OtherValue \<Rightarrow> None)"

definition createFingerprint :: "(Buffer \<Rightarrow> string) \<Rightarrow> HasContents \<Rightarrow> error + string" where
  "createFingerprint md5 file =
     (case update_data (contents file) of
        None \<Rightarrow> Inl InvalidArgType
      | Some b \<Rightarrow> Inr (md5 b))"

definition loadHistory :: "ChangeTrackerImpl \<Rightarrow> world \<Rightarrow> (error + history) \<times> world" where
  "loadHistory t w =
     (if no_historyPath t then (Inl (ChangeTrackerError HISTORY_PATH_NOT_SET None), w)
      else
        (case readFile (the (historyPath (config t))) w of
           (Inl e, w') \<Rightarrow> (Inr (HObject Map.empty), w')
         | (Inr Malformed, w') \<Rightarrow> (Inr (HObject Map.empty), w')
         | (Inr (Json h), w') \<Rightarrow> (Inr h, w')))"

definition saveHistory ::
  "ChangeTrackerImpl \<Rightarrow> FileFingerprints \<Rightarrow> world \<Rightarrow> (error + unit) \<times> world" where
  "saveHistory t fingerprints w =
     (if no_historyPath t then (Inl (ChangeTrackerError HISTORY_PATH_NOT_SET None), w)
      else
        (case mkdir_dirname (the (historyPath (config t))) w of
           (Inl e, w1) \<Rightarrow> (Inl (ChangeTrackerError HISTORY_WRITE_ERROR (Some e)), w1)
         | (Inr u, w1) \<Rightarrow>
             (case writeFile (the (historyPath (config t))) (JSON_stringify fingerprints) w1 of
                (Inl e, w2) \<Rightarrow> (Inl (ChangeTrackerError HISTORY_WRITE_ERROR (Some e)), w2)
              | (Inr u', w2) \<Rightarrow> (Inr (), w2))))"

text \<open>The \<open>reduce\<close> that computes the new fingerprints; the first failure is thrown.\<close>

fun newFingerprints ::
  "(Buffer \<Rightarrow> string) \<Rightarrow> FileDataCollection \<Rightarrow> FileFingerprints \<Rightarrow> error + FileFingerprints" where
  "newFingerprints md5 [] acc = Inr acc"
| "newFingerprints md5 ((filepath, file) # rest) acc =
     (case createFingerprint md5 file of
        Inl e \<Rightarrow> Inl e
      | Inr fp \<Rightarrow> newFingerprints md5 rest (obj_set_string acc filepath fp))"

text \<open>The loop that deletes the state of every path that is not a key of \<open>files\<close>.\<close>

definition clear_deleted :: "FileDataCollection \<Rightarrow> FileStates \<Rightarrow> FileStates" where
  "clear_deleted files m = (\<lambda>p. if p \<in> set (Object_keys files) then m p else None)"

definition new_state :: "jsvalue \<Rightarrow> jsvalue \<Rightarrow> FileChangeState" where
  "new_state previous current =
     (let isNew = \<not> js_truthy previous in
      \<lparr>status =
         (if isNew then New
          else if \<not> js_strict_eq previous current then Modified
          else Unchanged),
       previousFingerprint = (if isNew then JUndefined else previous)\<rparr>)"

text \<open>
  The body of the loop that sets the states: the state of one input path, from the
  loaded history and the object of new fingerprints. Reading a property of a \<open>null\<close>
  history throws.
\<close>

definition file_state :: "history \<Rightarrow> FileFingerprints \<Rightarrow> string \<Rightarrow> error + FileChangeState" where
  "file_state loadedHistory fps filepath =
     (case history_get loadedHistory filepath of
        Inl e \<Rightarrow> Inl e
      | Inr previous \<Rightarrow> Inr (new_state previous (obj_get (own_values fps) filepath)))"

text \<open>
  The loop over \<open>Object.entries(files)\<close>. A throw ends it; the states set before stay
  set.
\<close>

fun update_states ::
  "history \<Rightarrow> FileFingerprints \<Rightarrow> FileDataCollection \<Rightarrow> FileStates \<Rightarrow> error option \<times> FileStates" where
  "update_states loadedHistory fps [] m = (None, m)"
| "update_states loadedHistory fps ((filepath, file) # rest) m =
     (case file_state loadedHistory fps filepath of
        Inl e \<Rightarrow> (Some e, m)
      | Inr state \<Rightarrow> update_states loadedHistory fps rest (m(filepath \<mapsto> state)))"

definition untracked :: FileChangeState where
  "untracked = \<lparr>status = Untracked, previousFingerprint = JUndefined\<rparr>"

text \<open>\<open>new Map(entries)\<close>: allocates a map and sets the entries in order.\<close>

definition new_Map :: "(string \<times> FileChangeState) list \<Rightarrow> world \<Rightarrow> nat \<times> world" where
  "new_Map entries w =
     (next_addr w,
      w\<lparr>heap := (heap w)(next_addr w := fold (\<lambda>(k, v) m. m(k \<mapsto> v)) entries Map.empty),
        next_addr := Suc (next_addr w)\<rparr>)"

definition set_fileStates :: "ChangeTrackerImpl \<Rightarrow> FileStates \<Rightarrow> world \<Rightarrow> world" where
  "set_fileStates t m w = w\<lparr>heap := (heap w)(fileStates t := m)\<rparr>"

text \<open>
  \<open>trackChanges\<close> returns the address of a \<open>Map\<close>, or the error thrown, and the world
  as the call leaves it.
\<close>

definition trackChanges ::
  "(Buffer \<Rightarrow> string) \<Rightarrow> ChangeTrackerImpl \<Rightarrow> FileDataCollection \<Rightarrow> world \<Rightarrow> (error + nat) \<times> world" where
  "trackChanges md5 t files w =
     (if not_enabled t then
        (case new_Map (map (\<lambda>filepath. (filepath, untracked)) (Object_keys files)) w of
           (a, w') \<Rightarrow> (Inr a, w'))
      else
        (case loadHistory t w of
           (Inl e, w1) \<Rightarrow> (Inl e, w1)
         | (Inr loadedHistory, w1) \<Rightarrow>
             (case newFingerprints md5 files Map.empty of
                Inl e \<Rightarrow> (Inl e, w1)
              | Inr fps \<Rightarrow>
                  (case update_states loadedHistory fps files
                          (clear_deleted files (heap w1 (fileStates t))) of
                     (Some e, m) \<Rightarrow> (Inl e, set_fileStates t m w1)
                   | (None, m) \<Rightarrow>
                       (case saveHistory t fps (set_fileStates t m w1) of
                          (Inl e, w2) \<Rightarrow> (Inl e, w2)
                        | (Inr u, w2) \<Rightarrow> (Inr (fileStates t), w2))))))"

definition getFileState :: "ChangeTrackerImpl \<Rightarrow> world \<Rightarrow> string \<Rightarrow> FileChangeState option" where
  "getFileState t w filepath = heap w (fileStates t) filepath"

definition clearHistory :: "ChangeTrackerImpl \<Rightarrow> world \<Rightarrow> (error + unit) \<times> world" where
  "clearHistory t w =
     (if no_historyPath t then (Inl (ChangeTrackerError HISTORY_PATH_NOT_SET None), w)
      else
        (case rm_force (the (historyPath (config t))) w of
           (Inl e, w1) \<Rightarrow> (Inl (ChangeTrackerError HISTORY_WRITE_ERROR (Some e)), w1)
         | (Inr u, w1) \<Rightarrow> (Inr (), set_fileStates t Map.empty w1)))"

text \<open>What a caller holding the address of a \<open>Map\<close> can do to it.\<close>

definition Map_set :: "nat \<Rightarrow> string \<Rightarrow> FileChangeState \<Rightarrow> world \<Rightarrow> world" where
  "Map_set a k v w = w\<lparr>heap := (heap w)(a := (heap w a)(k \<mapsto> v))\<rparr>"

definition Map_delete :: "nat \<Rightarrow> string \<Rightarrow> world \<Rightarrow> world" where
  "Map_delete a k w = w\<lparr>heap := (heap w)(a := (heap w a)(k := None))\<rparr>"

definition Map_get :: "nat \<Rightarrow> string \<Rightarrow> world \<Rightarrow> FileChangeState option" where
  "Map_get a k w = heap w a k"

section \<open>Example inputs\<close>

text \<open>
  Concrete inputs for the evaluations below. \<open>example_md5\<close> lists the MD5 digests of the
  buffers used (the bytes of "x" and of "y", and the empty buffer otherwise); every general
  theorem holds for any digest function.
\<close>

definition example_md5 :: "Buffer \<Rightarrow> string" where
  "example_md5 b =
     (if b = [120] then ''9dd4e461268c8034f5c8564e155c67a6''
      else if b = [121] then ''415290769594460e2e485922904f345d''
      else ''d41d8cd98f00b204e9800998ecf8427e'')"

definition file_x :: HasContents where
  "file_x = \<lparr>contents = Bytes [120]\<rparr>"

definition file_y :: HasContents where
  "file_y = \<lparr>contents = Bytes [121]\<rparr>"

definition file_undefined :: HasContents where
  "file_undefined = \<lparr>contents = Undefined\<rparr>"

definition file_string :: HasContents where
  "file_string = \<lparr>contents = Str ''x''\<rparr>"

text \<open>
  Trackers as the constructor leaves them, with their map at address 0: tracking on,
  tracking off, and tracking on with the empty history path.
\<close>

definition tracker_on :: ChangeTrackerImpl where
  "tracker_on =
     \<lparr>config = \<lparr>historyPath = Some ''history.json'', enabled = Some True\<rparr>,
      fileStates = 0\<rparr>"

definition tracker_off :: ChangeTrackerImpl where
  "tracker_off =
     \<lparr>config = \<lparr>historyPath = Some ''history.json'', enabled = Some False\<rparr>,
      fileStates = 0\<rparr>"

definition tracker_no_path :: ChangeTrackerImpl where
  "tracker_no_path =
     \<lparr>config = \<lparr>historyPath = Some [], enabled = Some True\<rparr>,
      fileStates = 0\<rparr>"

text \<open>A world with an empty disk, no faults and one allocated map, at address 0.\<close>

definition fresh_world :: world where
  "fresh_world =
     \<lparr>disk = Map.empty, fault = (\<lambda>k p. None), trace = [],
      heap = (\<lambda>a. Map.empty), next_addr = 1\<rparr>"

text \<open>
  The world after \<open>tracker_on\<close> has tracked \<open>a.txt\<close> with contents "x" in the fresh world.
\<close>

definition world_after_x :: world where
  "world_after_x =
     \<lparr>disk = [''history.json'' \<mapsto> JSON_stringify [''a.txt'' \<mapsto> ''9dd4e461268c8034f5c8564e155c67a6'']],
      fault = (\<lambda>k p. None),
      trace = [ReadFile ''history.json'', MkdirDirname ''history.json'',
               WriteFile ''history.json''
                 (JSON_stringify [''a.txt'' \<mapsto> ''9dd4e461268c8034f5c8564e155c67a6''])],
      heap = (\<lambda>a. Map.empty)(0 := [''a.txt'' \<mapsto> \<lparr>status = New, previousFingerprint = JUndefined\<rparr>]),
      next_addr = 1\<rparr>"

text \<open>
  A world whose history file cannot be removed (permission denied), with one state
  in the tracker's map.
\<close>

definition locked_world :: world where
  "locked_world =
     fresh_world\<lparr>disk := [''history.json'' \<mapsto> JSON_stringify [''a.txt'' \<mapsto> example_md5 [120]]],
                 fault := (\<lambda>k p. if k = Removing then Some EACCES else None),
                 heap := (\<lambda>a. [''a.txt'' \<mapsto> \<lparr>status = New, previousFingerprint = JUndefined\<rparr>])\<rparr>"

text \<open>A world in which the history file cannot be written (permission denied).\<close>

definition readonly_world :: world where
  "readonly_world = fresh_world\<lparr>fault := (\<lambda>k p. if k = Writing then Some EACCES else None)\<rparr>"

text \<open>Worlds whose history file holds valid JSON of the wrong shape.\<close>

definition null_history_world :: world where
  "null_history_world = fresh_world\<lparr>disk := [''history.json'' \<mapsto> Json HNull]\<rparr>"

definition number_history_world :: world where
  "number_history_world =
     fresh_world\<lparr>disk := [''history.json'' \<mapsto> Json (HObject [''a.txt'' \<mapsto> JNum 7])]\<rparr>"

section \<open>Basic facts\<close>

subsection \<open>Filesystem calls, load and save\<close>

lemma readFile_frame:
  "readFile p w = (r, w') \<Longrightarrow> w' = w\<lparr>trace := trace w @ [ReadFile p]\<rparr>"
  by (auto simp: readFile_def Let_def split: option.splits)

lemma loadHistory_frame:
  "loadHistory t w = (Inr h, w') \<Longrightarrow>
     \<not> no_historyPath t \<and> w' = w\<lparr>trace := trace w @ [ReadFile (the (historyPath (config t)))]\<rparr>"
  by (auto simp: loadHistory_def split: if_splits prod.splits sum.splits file_text.splits
      dest: readFile_frame)

lemma loadHistory_error:
  "loadHistory t w = (Inl e, w') \<Longrightarrow>
     no_historyPath t \<and> e = ChangeTrackerError HISTORY_PATH_NOT_SET None \<and> w' = w"
  by (auto simp: loadHistory_def split: if_splits prod.splits sum.splits file_text.splits)

lemma loadHistory_total:
  "\<not> no_historyPath t \<Longrightarrow> \<exists>h. loadHistory t w =
     (Inr h, w\<lparr>trace := trace w @ [ReadFile (the (historyPath (config t)))]\<rparr>)"
  by (auto simp: loadHistory_def split: if_splits prod.splits sum.splits file_text.splits
      dest: readFile_frame)

lemma loadHistory_empty:
  assumes "\<not> no_historyPath t"
    and "fault w Reading (the (historyPath (config t))) \<noteq> None
         \<or> disk w (the (historyPath (config t))) = None
         \<or> disk w (the (historyPath (config t))) = Some Malformed"
  shows "loadHistory t w =
     (Inr (HObject Map.empty), w\<lparr>trace := trace w @ [ReadFile (the (historyPath (config t)))]\<rparr>)"
  using assms
  by (auto simp: loadHistory_def readFile_def Let_def split: option.splits)

lemma mkdir_dirname_frame:
  "mkdir_dirname p w = (r, w') \<Longrightarrow> w' = w\<lparr>trace := trace w @ [MkdirDirname p]\<rparr>"
  by (auto simp: mkdir_dirname_def Let_def split: option.splits)

lemma writeFile_error:
  "writeFile p c w = (Inl e, w') \<Longrightarrow>
     fault w Writing p = Some e \<and> w' = w\<lparr>trace := trace w @ [WriteFile p c]\<rparr>"
  by (auto simp: writeFile_def Let_def split: option.splits)

lemma writeFile_ok:
  "writeFile p c w = (Inr u, w') \<Longrightarrow>
     fault w Writing p = None \<and>
     w' = w\<lparr>trace := trace w @ [WriteFile p c], disk := (disk w)(p \<mapsto> c)\<rparr>"
  by (auto simp: writeFile_def Let_def split: option.splits)

lemma saveHistory_error:
  "saveHistory t fps w = (Inl e, w') \<Longrightarrow>
     heap w' = heap w \<and> disk w' = disk w \<and> next_addr w' = next_addr w \<and> fault w' = fault w"
  by (auto simp: saveHistory_def split: if_splits prod.splits sum.splits
      dest!: mkdir_dirname_frame writeFile_error)

lemma saveHistory_ok:
  "saveHistory t fps w = (Inr u, w') \<Longrightarrow>
     \<not> no_historyPath t \<and> heap w' = heap w \<and> next_addr w' = next_addr w \<and> fault w' = fault w \<and>
     disk w' = (disk w)(the (historyPath (config t)) \<mapsto> JSON_stringify fps)"
  by (auto simp: saveHistory_def split: if_splits prod.splits sum.splits
      dest!: mkdir_dirname_frame writeFile_ok)

lemma save_fault_same:
  "fault w' = fault w \<Longrightarrow> save_fault w' p = save_fault w p"
  by (simp add: save_fault_def split: option.splits)

lemma saveHistory_fault:
  assumes "\<not> no_historyPath t" and "save_fault w (the (historyPath (config t))) = Some e"
  shows "fst (saveHistory t fps w) = Inl (ChangeTrackerError HISTORY_WRITE_ERROR (Some e))
       \<and> disk (snd (saveHistory t fps w)) = disk w
       \<and> heap (snd (saveHistory t fps w)) = heap w"
  using assms
  by (auto simp: saveHistory_def save_fault_def mkdir_dirname_def writeFile_def Let_def
      split: option.splits)

lemma saveHistory_no_fault:
  assumes "\<not> no_historyPath t" and "save_fault w (the (historyPath (config t))) = None"
  shows "saveHistory t fps w =
     (Inr (),
      w\<lparr>trace := trace w @ [MkdirDirname (the (historyPath (config t))),
                            WriteFile (the (historyPath (config t))) (JSON_stringify fps)],
        disk := (disk w)(the (historyPath (config t)) \<mapsto> JSON_stringify fps)\<rparr>)"
  using assms
  by (auto simp: saveHistory_def save_fault_def mkdir_dirname_def writeFile_def Let_def
      split: option.splits)

lemma rm_force_error:
  "rm_force p w = (Inl e, w') \<Longrightarrow>
     fault w Removing p = Some e \<and> w' = w\<lparr>trace := trace w @ [Rm p]\<rparr>"
  by (auto simp: rm_force_def Let_def split: option.splits)

subsection \<open>The fingerprints of a run\<close>

lemma newFingerprints_invalid:
  "(p, f) \<in> set files \<Longrightarrow> update_data (contents f) = None \<Longrightarrow>
     newFingerprints md5 files acc = Inl InvalidArgType"
  by (induction files arbitrary: acc)
     (auto simp: createFingerprint_def split: option.splits sum.splits)

lemma newFingerprints_error:
  "newFingerprints md5 files acc = Inl e \<Longrightarrow>
     e = InvalidArgType \<and> (\<exists>p f. (p, f) \<in> set files \<and> update_data (contents f) = None)"
proof (induction files arbitrary: acc)
  case Nil
  then show ?case by simp
next
  case (Cons x rest)
  obtain q g where x: "x = (q, g)" by (cases x)
  show ?case
  proof (cases "update_data (contents g)")
    case None
    with Cons.prems x show ?thesis
      by (auto simp: createFingerprint_def)
  next
    case (Some b)
    with Cons.prems x
    have "newFingerprints md5 rest (obj_set_string acc q (md5 b)) = Inl e"
      by (simp add: createFingerprint_def)
    from Cons.IH [OF this] show ?thesis by auto
  qed
qed

lemma newFingerprints_contents:
  "newFingerprints md5 files acc = Inr fps \<Longrightarrow> (p, f) \<in> set files \<Longrightarrow> update_data (contents f) \<noteq> None"
  using newFingerprints_invalid [of p f files md5 acc] by auto

lemma newFingerprints_lookup:
  "newFingerprints md5 files acc = Inr fps \<Longrightarrow> distinct (Object_keys files) \<Longrightarrow>
   k \<noteq> ''__proto__'' \<Longrightarrow>
     fps k = (case map_of files k of None \<Rightarrow> acc k | Some f \<Rightarrow> map_option md5 (update_data (contents f)))"
proof (induction files arbitrary: acc)
  case Nil
  then show ?case by simp
next
  case (Cons x rest)
  obtain q g where x: "x = (q, g)" by (cases x)
  from Cons.prems(1) x obtain b where b: "update_data (contents g) = Some b"
    and rest: "newFingerprints md5 rest (obj_set_string acc q (md5 b)) = Inr fps"
    by (auto simp: createFingerprint_def split: option.splits)
  from Cons.prems(2) x have d: "distinct (Object_keys rest)" and q: "q \<notin> fst ` set rest"
    by (auto simp: Object_keys_def)
  have ih: "fps k = (case map_of rest k of None \<Rightarrow> obj_set_string acc q (md5 b) k
                     | Some f \<Rightarrow> map_option md5 (update_data (contents f)))"
    by (rule Cons.IH [OF rest d Cons.prems(3)])
  show ?case
  proof (cases "k = q")
    case True
    with q have "map_of rest k = None" by (simp add: map_of_eq_None_iff)
    with ih True Cons.prems(3) x b show ?thesis by (simp add: obj_set_string_def)
  next
    case False
    with ih x show ?thesis by (auto simp: obj_set_string_def split: option.splits)
  qed
qed

lemma newFingerprints_proto:
  "newFingerprints md5 files acc = Inr fps \<Longrightarrow> acc ''__proto__'' = None \<Longrightarrow>
     fps ''__proto__'' = None"
  by (induction files arbitrary: acc)
     (auto simp: obj_set_string_def split: sum.splits if_splits)

lemma newFingerprints_dom:
  "newFingerprints md5 files acc = Inr fps \<Longrightarrow> k \<notin> set (Object_keys files) \<Longrightarrow> fps k = acc k"
  by (induction files arbitrary: acc)
     (auto simp: obj_set_string_def Object_keys_def split: sum.splits if_splits)

subsection \<open>The states of a run\<close>

lemma js_strict_eq_JStr: "js_strict_eq v (JStr x) = (v = JStr x)"
  by (cases v) (simp_all add: js_strict_eq_def)

lemma file_state_total: "h \<noteq> HNull \<Longrightarrow> \<exists>s. file_state h fps p = Inr s"
  by (cases h) (auto simp: file_state_def history_get_def)

lemma file_state_no_history:
  "p \<notin> set Object_prototype_names \<Longrightarrow>
     file_state (HObject Map.empty) fps p = Inr \<lparr>status = New, previousFingerprint = JUndefined\<rparr>"
  by (simp add: file_state_def history_get_def obj_get_def new_state_def js_truthy_def)

lemma update_states_ok:
  "h \<noteq> HNull \<Longrightarrow>
     update_states h fps files m =
       (None, \<lambda>p. if p \<in> set (Object_keys files)
                  then (case file_state h fps p of Inr s \<Rightarrow> Some s | Inl e \<Rightarrow> None)
                  else m p)"
proof (induction files arbitrary: m)
  case Nil
  then show ?case by (simp add: Object_keys_def)
next
  case (Cons x rest)
  obtain q g where x: "x = (q, g)" by (cases x)
  from file_state_total [OF Cons.prems] obtain s where s: "file_state h fps q = Inr s"
    by blast
  have "update_states h fps (x # rest) m = update_states h fps rest (m(q \<mapsto> s))"
    using x s by simp
  also have "\<dots> = (None, \<lambda>p. if p \<in> set (Object_keys rest)
                  then (case file_state h fps p of Inr s \<Rightarrow> Some s | Inl e \<Rightarrow> None)
                  else (m(q \<mapsto> s)) p)"
    by (rule Cons.IH [OF Cons.prems])
  also have "\<dots> = (None, \<lambda>p. if p \<in> set (Object_keys (x # rest))
                  then (case file_state h fps p of Inr s \<Rightarrow> Some s | Inl e \<Rightarrow> None)
                  else m p)"
    using x s by (auto simp: Object_keys_def fun_eq_iff)
  finally show ?case .
qed

lemma update_states_null:
  "update_states HNull fps ((p, f) # rest) m = (Some NullPropertyRead, m)"
  by (simp add: file_state_def history_get_def)

lemma update_states_complete:
  assumes "h = HNull \<longrightarrow> files = []"
  shows "update_states h fps files m =
       (None, \<lambda>p. if p \<in> set (Object_keys files)
                  then (case file_state h fps p of Inr s \<Rightarrow> Some s | Inl e \<Rightarrow> None)
                  else m p)"
proof (cases "h = HNull")
  case True
  with assms show ?thesis by (simp add: Object_keys_def)
next
  case False
  then show ?thesis by (rule update_states_ok)
qed

lemma update_states_None:
  "update_states h fps files m0 = (None, m) \<Longrightarrow>
     m = (\<lambda>p. if p \<in> set (Object_keys files)
              then (case file_state h fps p of Inr s \<Rightarrow> Some s | Inl e \<Rightarrow> None)
              else m0 p)
     \<and> (\<forall>p. p \<in> set (Object_keys files) \<longrightarrow> (\<exists>s. file_state h fps p = Inr s))"
proof (induction files arbitrary: m0)
  case Nil
  then show ?case by (simp add: Object_keys_def)
next
  case (Cons x rest)
  obtain q g where x: "x = (q, g)" by (cases x)
  from Cons.prems x obtain s where s: "file_state h fps q = Inr s"
    and rest: "update_states h fps rest (m0(q \<mapsto> s)) = (None, m)"
    by (auto split: sum.splits)
  from Cons.IH [OF rest] x s show ?case
    by (auto simp: Object_keys_def fun_eq_iff)
qed

lemma update_states_keeps:
  "update_states h fps files m = (r, m') \<Longrightarrow> p \<notin> set (Object_keys files) \<Longrightarrow> m' p = m p"
  by (induction files arbitrary: m)
     (auto simp: Object_keys_def split: sum.splits)

lemma fold_untracked:
  "fold (\<lambda>(k, v) m. m(k \<mapsto> v)) (map (\<lambda>p. (p, untracked)) ks) m0
     = (\<lambda>p. if p \<in> set ks then Some untracked else m0 p)"
  by (induction ks arbitrary: m0) (auto simp: fun_eq_iff)

lemma getFileState_set_fileStates:
  "getFileState t (set_fileStates t m w) p = m p"
  by (simp add: getFileState_def set_fileStates_def)

lemma new_ChangeTrackerImpl_allocated:
  "new_ChangeTrackerImpl cfg w = (t, w') \<Longrightarrow>
     fileStates t < next_addr w' \<and> heap w' (fileStates t) = Map.empty"
  by (auto simp: new_ChangeTrackerImpl_def)

subsection \<open>Runs of trackChanges\<close>

lemma trackChanges_disabled:
  "not_enabled t \<Longrightarrow>
     trackChanges md5 t files w =
       (Inr (next_addr w),
        w\<lparr>heap := (heap w)(next_addr w :=
               (\<lambda>p. if p \<in> set (Object_keys files) then Some untracked else None)),
          next_addr := Suc (next_addr w)\<rparr>)"
  by (simp add: trackChanges_def new_Map_def fold_untracked)

lemma trackChanges_enabled_run:
  assumes "\<not> not_enabled t" and "loadHistory t w = (Inr h, w1)"
    and "newFingerprints md5 files Map.empty = Inr fps"
    and "h = HNull \<longrightarrow> files = []"
  shows "trackChanges md5 t files w =
     (case saveHistory t fps
             (set_fileStates t
                (\<lambda>p. if p \<in> set (Object_keys files)
                     then (case file_state h fps p of Inr s \<Rightarrow> Some s | Inl e \<Rightarrow> None)
                     else None) w1) of
        (Inl e, w2) \<Rightarrow> (Inl e, w2)
      | (Inr u, w2) \<Rightarrow> (Inr (fileStates t), w2))"
proof -
  have "(\<lambda>p. if p \<in> set (Object_keys files)
             then (case file_state h fps p of Inr s \<Rightarrow> Some s | Inl e \<Rightarrow> None)
             else clear_deleted files (heap w1 (fileStates t)) p)
        = (\<lambda>p. if p \<in> set (Object_keys files)
             then (case file_state h fps p of Inr s \<Rightarrow> Some s | Inl e \<Rightarrow> None)
             else None)"
    by (auto simp: clear_deleted_def fun_eq_iff)
  with assms show ?thesis
    by (simp add: trackChanges_def update_states_complete)
qed

lemma trackChanges_enabled_Inr:
  assumes "\<not> not_enabled t" and "trackChanges md5 t files w = (Inr a, w')"
  shows "a = fileStates t \<and>
         (\<exists>h fps m. loadHistory t w =
                      (Inr h, w\<lparr>trace := trace w @ [ReadFile (the (historyPath (config t)))]\<rparr>)
            \<and> newFingerprints md5 files Map.empty = Inr fps
            \<and> update_states h fps files (clear_deleted files (heap w (fileStates t))) = (None, m)
            \<and> saveHistory t fps
                 (set_fileStates t m
                    (w\<lparr>trace := trace w @ [ReadFile (the (historyPath (config t)))]\<rparr>))
               = (Inr (), w'))"
proof -
  from assms obtain h w1 where l: "loadHistory t w = (Inr h, w1)"
    by (cases "loadHistory t w")
       (auto simp: trackChanges_def split: sum.splits prod.splits)
  from loadHistory_frame [OF l]
  have w1: "w1 = w\<lparr>trace := trace w @ [ReadFile (the (historyPath (config t)))]\<rparr>" by simp
  from assms l obtain fps where f: "newFingerprints md5 files Map.empty = Inr fps"
    by (auto simp: trackChanges_def split: sum.splits prod.splits)
  from assms l f obtain m where
    u: "update_states h fps files (clear_deleted files (heap w1 (fileStates t))) = (None, m)"
    by (auto simp: trackChanges_def split: sum.splits prod.splits option.splits)
  from assms l f u have "a = fileStates t"
    and "saveHistory t fps (set_fileStates t m w1) = (Inr (), w')"
    by (auto simp: trackChanges_def split: sum.splits prod.splits)
  with l f u w1 show ?thesis by auto
qed

lemma trackChanges_enabled_states:
  assumes "\<not> not_enabled t" and "trackChanges md5 t files w = (Inr a, w')"
  shows "a = fileStates t \<and>
         (\<exists>h fps. fst (loadHistory t w) = Inr h
            \<and> newFingerprints md5 files Map.empty = Inr fps
            \<and> disk w' = (disk w)(the (historyPath (config t)) \<mapsto> JSON_stringify fps)
            \<and> heap w' (fileStates t) =
                (\<lambda>p. if p \<in> set (Object_keys files)
                     then (case file_state h fps p of Inr s \<Rightarrow> Some s | Inl e \<Rightarrow> None)
                     else None)
            \<and> (\<forall>p. p \<in> set (Object_keys files) \<longrightarrow> (\<exists>s. file_state h fps p = Inr s)))"
proof -
  from trackChanges_enabled_Inr [OF assms] obtain h fps m where
    a: "a = fileStates t"
    and l: "loadHistory t w =
              (Inr h, w\<lparr>trace := trace w @ [ReadFile (the (historyPath (config t)))]\<rparr>)"
    and f: "newFingerprints md5 files Map.empty = Inr fps"
    and u: "update_states h fps files (clear_deleted files (heap w (fileStates t))) = (None, m)"
    and s: "saveHistory t fps
              (set_fileStates t m
                 (w\<lparr>trace := trace w @ [ReadFile (the (historyPath (config t)))]\<rparr>))
            = (Inr (), w')"
    by blast
  from update_states_None [OF u]
  have m: "m = (\<lambda>p. if p \<in> set (Object_keys files)
                   then (case file_state h fps p of Inr s \<Rightarrow> Some s | Inl e \<Rightarrow> None)
                   else None)"
    and tot: "\<forall>p. p \<in> set (Object_keys files) \<longrightarrow> (\<exists>s. file_state h fps p = Inr s)"
    by (auto simp: clear_deleted_def fun_eq_iff)
  from saveHistory_ok [OF s]
  have "heap w' (fileStates t) = m"
    and "disk w' = (disk w)(the (historyPath (config t)) \<mapsto> JSON_stringify fps)"
    by (simp_all add: set_fileStates_def)
  with a l f m tot show ?thesis by auto
qed

text \<open>
  The tracker's map stays allocated: the constructor allocates it, and no call moves the
  next free address below it.
\<close>

lemma trackChanges_keeps_allocated:
  assumes "fileStates t < next_addr w"
  shows "fileStates t < next_addr (snd (trackChanges md5 t files w))"
proof (cases "not_enabled t")
  case True
  with assms show ?thesis by (simp add: trackChanges_disabled)
next
  case False
  have l: "next_addr w1 = next_addr w" if "loadHistory t w = (r, w1)" for r w1
    using that loadHistory_frame [of t w _ w1] loadHistory_error [of t w _ w1]
    by (cases r) auto
  have s: "next_addr w2 = next_addr w1" if "saveHistory t fps w1 = (r, w2)" for fps w1 r w2
    using that saveHistory_error [of t fps w1 _ w2] saveHistory_ok [of t fps w1 _ w2]
    by (cases r) auto
  show ?thesis
    using False assms
    by (auto simp: trackChanges_def set_fileStates_def
        split: prod.splits sum.splits option.splits dest!: l s)
qed

lemma clearHistory_keeps_allocated:
  assumes "fileStates t < next_addr w"
  shows "fileStates t < next_addr (snd (clearHistory t w))"
  using assms
  by (auto simp: clearHistory_def rm_force_def Let_def set_fileStates_def split: option.splits)

subsection \<open>The example inputs\<close>

lemma no_historyPath_example [simp]:
  "no_historyPath tracker_no_path" "\<not> no_historyPath tracker_on" "\<not> no_historyPath tracker_off"
  "\<not> not_enabled tracker_no_path" "\<not> not_enabled tracker_on" "not_enabled tracker_off"
  by (simp_all add: no_historyPath_def not_enabled_def tracker_no_path_def tracker_on_def
      tracker_off_def)

lemma example_config [simp]:
  "historyPath (config tracker_on) = Some ''history.json''"
  "historyPath (config tracker_off) = Some ''history.json''"
  "fileStates tracker_on = 0" "fileStates tracker_off = 0"
  by (simp_all add: tracker_on_def tracker_off_def)

lemma fresh_world_fields [simp]:
  "disk fresh_world = Map.empty" "fault fresh_world = (\<lambda>k p. None)" "trace fresh_world = []"
  "heap fresh_world = (\<lambda>a. Map.empty)" "next_addr fresh_world = 1"
  by (simp_all add: fresh_world_def)

lemma world_after_x_fields [simp]:
  "fault world_after_x = (\<lambda>k p. None)"
  "heap world_after_x = (\<lambda>a. Map.empty)(0 := [''a.txt'' \<mapsto> \<lparr>status = New, previousFingerprint = JUndefined\<rparr>])"
  "next_addr world_after_x = 1"
  "disk world_after_x = [''history.json'' \<mapsto> JSON_stringify [''a.txt'' \<mapsto> ''9dd4e461268c8034f5c8564e155c67a6'']]"
  by (simp_all add: world_after_x_def)

lemma locked_world_fields [simp]:
  "disk locked_world = [''history.json'' \<mapsto> JSON_stringify [''a.txt'' \<mapsto> example_md5 [120]]]"
  "fault locked_world = (\<lambda>k p. if k = Removing then Some EACCES else None)"
  "trace locked_world = []"
  "heap locked_world = (\<lambda>a. [''a.txt'' \<mapsto> \<lparr>status = New, previousFingerprint = JUndefined\<rparr>])"
  "next_addr locked_world = 1"
  by (simp_all add: locked_world_def)

lemma readonly_world_fields [simp]:
  "fault readonly_world = (\<lambda>k p. if k = Writing then Some EACCES else None)"
  "heap readonly_world = (\<lambda>a. Map.empty)"
  "next_addr readonly_world = 1"
  "disk readonly_world = Map.empty"
  "trace readonly_world = []"
  by (simp_all add: readonly_world_def)

lemma null_history_world_fields [simp]:
  "fault null_history_world = (\<lambda>k p. None)"
  "heap null_history_world = (\<lambda>a. Map.empty)"
  "disk null_history_world = [''history.json'' \<mapsto> Json HNull]"
  "trace null_history_world = []"
  by (simp_all add: null_history_world_def)

lemma number_history_world_fields [simp]:
  "fault number_history_world = (\<lambda>k p. None)"
  "heap number_history_world = (\<lambda>a. Map.empty)"
  "disk number_history_world = [''history.json'' \<mapsto> Json (HObject [''a.txt'' \<mapsto> JNum 7])]"
  "trace number_history_world = []"
  by (simp_all add: number_history_world_def)

lemma new_ChangeTrackerImpl_example:
  "new_ChangeTrackerImpl \<lparr>historyPath = Some ''history.json'', enabled = None\<rparr>
     (fresh_world\<lparr>next_addr := 0\<rparr>) = (tracker_on, fresh_world)"
  by (simp add: new_ChangeTrackerImpl_def tracker_on_def fresh_world_def fun_eq_iff)

text \<open>
  The scenario of the specification on the model: tracking \<open>a.txt\<close> with contents "x"
  reports it new; tracking it again reports it unchanged, and with contents "y"
  modified, both with the digest of "x" as previous fingerprint; tracking nothing
  removes its state; clearing the history removes the file and the states.
\<close>

lemma run_x_fresh:
  "trackChanges example_md5 tracker_on [(''a.txt'', file_x)] fresh_world = (Inr 0, world_after_x)"
  apply (simp add: trackChanges_def loadHistory_def readFile_def Let_def createFingerprint_def
      file_x_def update_data_def example_md5_def obj_set_string_def clear_deleted_def Object_keys_def
      file_state_def history_get_def obj_get_def own_values_def Object_prototype_names_def
      new_state_def js_truthy_def saveHistory_def mkdir_dirname_def writeFile_def
      set_fileStates_def JSON_stringify_def)
  apply (simp add: fresh_world_def world_after_x_def JSON_stringify_def own_values_def fun_eq_iff)
  done

lemma run_x_again:
  "fst (trackChanges example_md5 tracker_on [(''a.txt'', file_x)] world_after_x) = Inr 0
   \<and> getFileState tracker_on
        (snd (trackChanges example_md5 tracker_on [(''a.txt'', file_x)] world_after_x)) ''a.txt''
       = Some \<lparr>status = Unchanged,
                previousFingerprint = JStr ''9dd4e461268c8034f5c8564e155c67a6''\<rparr>"
  by (simp add: trackChanges_def loadHistory_def readFile_def Let_def createFingerprint_def
      file_x_def update_data_def example_md5_def obj_set_string_def clear_deleted_def Object_keys_def
      file_state_def history_get_def obj_get_def own_values_def Object_prototype_names_def
      new_state_def js_truthy_def js_strict_eq_def saveHistory_def mkdir_dirname_def
      writeFile_def set_fileStates_def getFileState_def JSON_stringify_def)

lemma run_y_after_x:
  "fst (trackChanges example_md5 tracker_on [(''a.txt'', file_y)] world_after_x) = Inr 0
   \<and> getFileState tracker_on
        (snd (trackChanges example_md5 tracker_on [(''a.txt'', file_y)] world_after_x)) ''a.txt''
       = Some \<lparr>status = Modified,
                previousFingerprint = JStr ''9dd4e461268c8034f5c8564e155c67a6''\<rparr>
   \<and> disk (snd (trackChanges example_md5 tracker_on [(''a.txt'', file_y)] world_after_x))
        ''history.json''
       = Some (JSON_stringify [''a.txt'' \<mapsto> ''415290769594460e2e485922904f345d''])"
  by (simp add: trackChanges_def loadHistory_def readFile_def Let_def createFingerprint_def
      file_y_def update_data_def example_md5_def obj_set_string_def clear_deleted_def Object_keys_def
      file_state_def history_get_def obj_get_def own_values_def Object_prototype_names_def
      new_state_def js_truthy_def js_strict_eq_def saveHistory_def mkdir_dirname_def
      writeFile_def set_fileStates_def getFileState_def JSON_stringify_def)

lemma run_empty_after_x:
  "fst (trackChanges example_md5 tracker_on [] world_after_x) = Inr 0"
  by (simp add: trackChanges_def loadHistory_def readFile_def Let_def
      clear_deleted_def Object_keys_def saveHistory_def mkdir_dirname_def writeFile_def
      set_fileStates_def JSON_stringify_def)

lemma clearHistory_after_x:
  "fst (clearHistory tracker_on world_after_x) = Inr ()
   \<and> disk (snd (clearHistory tracker_on world_after_x)) ''history.json'' = None
   \<and> getFileState tracker_on (snd (clearHistory tracker_on world_after_x)) ''a.txt'' = None"
  by (simp add: clearHistory_def rm_force_def Let_def set_fileStates_def getFileState_def)

lemma clearHistory_locked:
  "clearHistory tracker_on locked_world =
     (Inl (ChangeTrackerError HISTORY_WRITE_ERROR (Some EACCES)),
      locked_world\<lparr>trace := [Rm ''history.json'']\<rparr>)"
  by (simp add: clearHistory_def rm_force_def Let_def)

section \<open>Claims\<close>

text \<open>
  C1, as stated, fails: a disabled run does not touch the tracker's own map. On a fresh
  tracker the returned map (a new one, at address 1) holds \<open>untracked\<close> for the input path,
  and \<open>getFileState\<close> on that path does not.
\<close>

theorem C1_disabled_run_counterexample:
  "fst (trackChanges example_md5 tracker_off [(''a.txt'', file_x)] fresh_world) = Inr 1
   \<and> Map_get 1 ''a.txt'' (snd (trackChanges example_md5 tracker_off [(''a.txt'', file_x)] fresh_world))
       = Some untracked
   \<and> getFileState tracker_off
        (snd (trackChanges example_md5 tracker_off [(''a.txt'', file_x)] fresh_world)) ''a.txt''
       \<noteq> Some untracked"
  by (simp add: trackChanges_disabled Map_get_def getFileState_def Object_keys_def)

text \<open>
  C1, amended. A disabled \<open>trackChanges\<close> returns a newly allocated map that assigns
  \<open>untracked\<close> (no previous fingerprint) to exactly the input paths; it reads and writes no
  file, and it leaves the tracker's own states alone: \<open>getFileState\<close> answers as before the
  call. The hypothesis on addresses says that the tracker's map has been allocated.
\<close>

theorem C1_disabled_run:
  assumes "not_enabled t" and "fileStates t < next_addr w"
    and "trackChanges md5 t files w = (r, w')"
  shows "r = Inr (next_addr w)
       \<and> (\<forall>p. Map_get (next_addr w) p w'
                = (if p \<in> set (Object_keys files) then Some untracked else None))
       \<and> disk w' = disk w \<and> trace w' = trace w
       \<and> (\<forall>p. getFileState t w' p = getFileState t w p)"
  using assms by (auto simp: trackChanges_disabled Map_get_def getFileState_def)

theorem C1_disabled_run_witness:
  "trackChanges example_md5 tracker_off [(''a.txt'', file_x)] locked_world
     = (Inr 1, locked_world\<lparr>heap := (heap locked_world)(1 :=
               (\<lambda>p. if p \<in> set (Object_keys [(''a.txt'', file_x)]) then Some untracked else None)),
          next_addr := 2\<rparr>)
   \<and> getFileState tracker_off
        (snd (trackChanges example_md5 tracker_off [(''a.txt'', file_x)] locked_world)) ''a.txt''
       = Some \<lparr>status = New, previousFingerprint = JUndefined\<rparr>"
proof -
  have run: "trackChanges example_md5 tracker_off [(''a.txt'', file_x)] locked_world
     = (Inr 1, locked_world\<lparr>heap := (heap locked_world)(1 :=
               (\<lambda>p. if p \<in> set (Object_keys [(''a.txt'', file_x)]) then Some untracked else None)),
          next_addr := 2\<rparr>)"
    by (simp add: trackChanges_disabled)
  have "getFileState tracker_off
          (snd (trackChanges example_md5 tracker_off [(''a.txt'', file_x)] locked_world)) ''a.txt''
        = getFileState tracker_off locked_world ''a.txt''"
    using C1_disabled_run [OF _ _ run] by (simp add: run)
  then show ?thesis
    by (simp add: run getFileState_def)
qed

text \<open>
  C2, as stated, fails: a string is no byte sequence, and \<open>hash.update\<close> takes it. A
  record whose \<open>contents\<close> is the string "x" gets the digest of its UTF-8 bytes, and the
  enabled run succeeds, reports the path new and writes that digest to the history.
\<close>

theorem C2_string_contents_counterexample:
  "createFingerprint example_md5 file_string = Inr ''9dd4e461268c8034f5c8564e155c67a6''
   \<and> fst (trackChanges example_md5 tracker_on [(''a.txt'', file_string)] fresh_world) = Inr 0
   \<and> getFileState tracker_on
        (snd (trackChanges example_md5 tracker_on [(''a.txt'', file_string)] fresh_world)) ''a.txt''
       = Some \<lparr>status = New, previousFingerprint = JUndefined\<rparr>
   \<and> disk (snd (trackChanges example_md5 tracker_on [(''a.txt'', file_string)] fresh_world))
        ''history.json''
       = Some (JSON_stringify [''a.txt'' \<mapsto> ''9dd4e461268c8034f5c8564e155c67a6''])"
  by (simp add: trackChanges_def loadHistory_def readFile_def Let_def createFingerprint_def
      file_string_def update_data_def utf8_def example_md5_def obj_set_string_def
      clear_deleted_def Object_keys_def file_state_def history_get_def obj_get_def
      own_values_def Object_prototype_names_def new_state_def js_truthy_def js_strict_eq_def
      saveHistory_def mkdir_dirname_def writeFile_def set_fileStates_def getFileState_def)

text \<open>
  C2, amended. In an enabled run with a history path, an input collection that holds a
  record whose \<open>contents\<close> is neither a byte sequence nor a string (the undefined field,
  for one) makes fingerprinting fail with the invalid-argument error, and \<open>trackChanges\<close>
  throws that error. Up to then the call has only read the history file: nothing on disk
  and no state of the tracker has changed.
\<close>

theorem C2_invalid_contents_abort:
  assumes "\<not> not_enabled t" and "\<not> no_historyPath t"
    and "(p, f) \<in> set files" and "update_data (contents f) = None"
  shows "createFingerprint md5 f = Inl InvalidArgType
       \<and> trackChanges md5 t files w
           = (Inl InvalidArgType, w\<lparr>trace := trace w @ [ReadFile (the (historyPath (config t)))]\<rparr>)
       \<and> (\<forall>q. getFileState t (snd (trackChanges md5 t files w)) q = getFileState t w q)
       \<and> disk (snd (trackChanges md5 t files w)) = disk w"
proof -
  from loadHistory_total [OF assms(2)] obtain h where
    h: "loadHistory t w = (Inr h, w\<lparr>trace := trace w @ [ReadFile (the (historyPath (config t)))]\<rparr>)"
    by blast
  have n: "newFingerprints md5 files Map.empty = Inl InvalidArgType"
    by (rule newFingerprints_invalid [OF assms(3,4)])
  have r: "trackChanges md5 t files w
           = (Inl InvalidArgType, w\<lparr>trace := trace w @ [ReadFile (the (historyPath (config t)))]\<rparr>)"
    using assms(1) h n by (simp add: trackChanges_def)
  show ?thesis
    using r assms(4) by (simp add: createFingerprint_def getFileState_def)
qed

theorem C2_invalid_contents_abort_witness:
  "trackChanges example_md5 tracker_on [(''a.txt'', file_x), (''test.txt'', file_undefined)] locked_world
     = (Inl InvalidArgType, locked_world\<lparr>trace := [ReadFile ''history.json'']\<rparr>)
   \<and> getFileState tracker_on
        (snd (trackChanges example_md5 tracker_on
               [(''a.txt'', file_x), (''test.txt'', file_undefined)] locked_world)) ''a.txt''
       = Some \<lparr>status = New, previousFingerprint = JUndefined\<rparr>"
proof -
  have "trackChanges example_md5 tracker_on [(''a.txt'', file_x), (''test.txt'', file_undefined)]
          locked_world
        = (Inl InvalidArgType,
           locked_world\<lparr>trace := trace locked_world @
              [ReadFile (the (historyPath (config tracker_on)))]\<rparr>)"
    using C2_invalid_contents_abort [of tracker_on "''test.txt''" file_undefined
      "[(''a.txt'', file_x), (''test.txt'', file_undefined)]" example_md5 locked_world]
    by (simp add: file_undefined_def update_data_def)
  then show ?thesis
    by (simp add: getFileState_def locked_world_def fresh_world_def tracker_on_def)
qed

text \<open>
  C3 at the path \<open>constructor\<close>, with no history file. The loaded history is the empty
  object, which has no fingerprint for any path; the read \<open>loadedHistory[filepath]\<close>
  still finds the member inherited from \<open>Object.prototype\<close>, which is truthy and differs
  from every string, so the file is reported modified, with that member as its previous
  fingerprint, where C3 says new with none.
\<close>

theorem C3_inherited_member_taken_for_fingerprint:
  "fst (loadHistory tracker_on fresh_world) = Inr (HObject Map.empty)
   \<and> fst (trackChanges example_md5 tracker_on [(''constructor'', file_x)] fresh_world) = Inr 0
   \<and> getFileState tracker_on
        (snd (trackChanges example_md5 tracker_on [(''constructor'', file_x)] fresh_world))
        ''constructor''
       = Some \<lparr>status = Modified, previousFingerprint = JNative ''constructor''\<rparr>"
  by (simp add: trackChanges_def loadHistory_def readFile_def Let_def createFingerprint_def
      file_x_def update_data_def example_md5_def obj_set_string_def clear_deleted_def Object_keys_def
      file_state_def history_get_def obj_get_def own_values_def Object_prototype_names_def
      new_state_def js_truthy_def js_strict_eq_def saveHistory_def mkdir_dirname_def
      writeFile_def set_fileStates_def getFileState_def)

text \<open>
  For every other input path the states are as C3 says. After a successful enabled run
  over a loaded history object with own properties \<open>own\<close>, an input path that is not the
  name of a member inherited from \<open>Object.prototype\<close> is new (no previous fingerprint)
  when the history has nothing, or a falsy value, for it; unchanged when the history has
  the fresh fingerprint; and modified otherwise; in both of these the previous
  fingerprint is the history's value.
\<close>

lemma trackChanges_state_of_plain_path:
  assumes "\<not> not_enabled t" and "trackChanges md5 t files w = (Inr a, w')"
    and "fst (loadHistory t w) = Inr (HObject own)"
    and "distinct (Object_keys files)" and "map_of files p = Some f"
    and "p \<notin> set Object_prototype_names"
  shows "\<exists>b. update_data (contents f) = Some b \<and>
           Map_get a p w' =
             Some (case own p of
                     None \<Rightarrow> \<lparr>status = New, previousFingerprint = JUndefined\<rparr>
                   | Some v \<Rightarrow>
                       if \<not> js_truthy v then \<lparr>status = New, previousFingerprint = JUndefined\<rparr>
                       else if v = JStr (md5 b) then \<lparr>status = Unchanged, previousFingerprint = v\<rparr>
                       else \<lparr>status = Modified, previousFingerprint = v\<rparr>)"
proof -
  from trackChanges_enabled_states [OF assms(1,2)] assms(3) obtain fps where
    a: "a = fileStates t"
    and f: "newFingerprints md5 files Map.empty = Inr fps"
    and m: "heap w' (fileStates t) =
              (\<lambda>p. if p \<in> set (Object_keys files)
                   then (case file_state (HObject own) fps p of Inr s \<Rightarrow> Some s | Inl e \<Rightarrow> None)
                   else None)"
    by auto
  from assms(5) have mem: "(p, f) \<in> set files" by (rule map_of_SomeD)
  then have key: "p \<in> set (Object_keys files)" by (force simp: Object_keys_def)
  from newFingerprints_contents [OF f mem] obtain b where b: "update_data (contents f) = Some b" by auto
  from assms(6) have np: "p \<noteq> ''__proto__''" by (auto simp: Object_prototype_names_def)
  from newFingerprints_lookup [OF f assms(4) np] assms(5) b
  have cur: "obj_get (own_values fps) p = JStr (md5 b)"
    by (simp add: obj_get_def own_values_def)
  have "Map_get a p w' = Some (new_state (obj_get own p) (JStr (md5 b)))"
    using a m key cur by (simp add: Map_get_def file_state_def history_get_def)
  with b assms(6) show ?thesis
    by (auto simp: obj_get_def new_state_def js_strict_eq_JStr js_truthy_def
        split: option.splits)
qed

text \<open>
  C4 at the path \<open>__proto__\<close>. The assignment \<open>acc[filepath] = fingerprint\<close> runs the
  inherited setter, which drops a string; the object of new fingerprints stays empty, and
  the history written by the successful run has no entry for the input path, where C4
  says every input path maps to its new fingerprint.
\<close>

theorem C4_proto_path_not_persisted:
  "newFingerprints example_md5 [(''__proto__'', file_x)] Map.empty = Inr Map.empty
   \<and> fst (trackChanges example_md5 tracker_on [(''__proto__'', file_x)] fresh_world) = Inr 0
   \<and> disk (snd (trackChanges example_md5 tracker_on [(''__proto__'', file_x)] fresh_world))
        ''history.json''
       = Some (JSON_stringify Map.empty)"
  by (simp add: trackChanges_def loadHistory_def readFile_def Let_def createFingerprint_def
      file_x_def update_data_def example_md5_def obj_set_string_def clear_deleted_def Object_keys_def
      file_state_def history_get_def obj_get_def own_values_def Object_prototype_names_def
      new_state_def js_truthy_def js_strict_eq_def saveHistory_def mkdir_dirname_def
      writeFile_def set_fileStates_def getFileState_def)

text \<open>
  For every input collection without the key \<open>__proto__\<close> the history written by a
  successful enabled run is as C4 says: it maps each input path to the digest of its
  contents and holds no other path.
\<close>

lemma trackChanges_persists_fingerprints:
  assumes "\<not> not_enabled t" and "trackChanges md5 t files w = (Inr a, w')"
    and "distinct (Object_keys files)" and "''__proto__'' \<notin> set (Object_keys files)"
  shows "\<exists>fps. disk w' (the (historyPath (config t))) = Some (JSON_stringify fps)
           \<and> (\<forall>p. fps p = (case map_of files p of
                              None \<Rightarrow> None
                            | Some f \<Rightarrow> map_option md5 (update_data (contents f))))
           \<and> (\<forall>p f. map_of files p = Some f \<longrightarrow> update_data (contents f) \<noteq> None)"
proof -
  from trackChanges_enabled_states [OF assms(1,2)] obtain fps where
    f: "newFingerprints md5 files Map.empty = Inr fps"
    and d: "disk w' = (disk w)(the (historyPath (config t)) \<mapsto> JSON_stringify fps)"
    by auto
  have "fps p = (case map_of files p of None \<Rightarrow> None | Some f \<Rightarrow> map_option md5 (update_data (contents f)))"
    for p
  proof (cases "p = ''__proto__''")
    case True
    with assms(4) have "map_of files p = None"
      by (simp add: map_of_eq_None_iff Object_keys_def)
    with True newFingerprints_proto [OF f] show ?thesis by simp
  next
    case False
    from newFingerprints_lookup [OF f assms(3) False] show ?thesis
      by (simp split: option.splits)
  qed
  moreover have "update_data (contents g) \<noteq> None" if "map_of files p = Some g" for p g
    using newFingerprints_contents [OF f map_of_SomeD [OF that]] .
  ultimately show ?thesis using d by auto
qed

text \<open>
  C5. Of two consecutive enabled runs, let the second succeed and return the map \<open>a\<close>.
  A path among the first run's inputs and not among the second's has no entry in \<open>a\<close>,
  and \<open>getFileState\<close> finds no state for it.
\<close>

theorem C5_deleted_path_absent:
  assumes "\<not> not_enabled t"
    and "trackChanges md5 t files1 w = (r1, w1)"
    and "trackChanges md5 t files2 w1 = (Inr a, w2)"
    and "p \<in> set (Object_keys files1)" and "p \<notin> set (Object_keys files2)"
  shows "Map_get a p w2 = None \<and> getFileState t w2 p = None"
  using trackChanges_enabled_states [OF assms(1,3)] assms(5)
  by (auto simp: Map_get_def getFileState_def)

theorem C5_deleted_path_absent_witness:
  "trackChanges example_md5 tracker_on [(''a.txt'', file_x)] fresh_world = (Inr 0, world_after_x)
   \<and> getFileState tracker_on world_after_x ''a.txt''
       = Some \<lparr>status = New, previousFingerprint = JUndefined\<rparr>
   \<and> fst (trackChanges example_md5 tracker_on [] world_after_x) = Inr 0
   \<and> getFileState tracker_on (snd (trackChanges example_md5 tracker_on [] world_after_x)) ''a.txt''
       = None"
proof -
  obtain w2 where run2: "trackChanges example_md5 tracker_on [] world_after_x = (Inr 0, w2)"
    using run_empty_after_x by (cases "trackChanges example_md5 tracker_on [] world_after_x") simp
  have "getFileState tracker_on w2 ''a.txt'' = None"
    using C5_deleted_path_absent [OF _ run_x_fresh run2, of "''a.txt''"]
    by (simp add: Object_keys_def)
  then show ?thesis
    by (simp add: run_x_fresh run2 getFileState_def)
qed

text \<open>
  C6 at a history file that is JSON and no mapping from paths to fingerprints.
  \<open>loadHistory\<close> returns whatever \<open>JSON.parse\<close> returns and checks no shape. A history
  file holding \<open>null\<close> is loaded as \<open>null\<close>, and the run throws a \<open>TypeError\<close> at the first
  read of a property; a history file holding \<open>{"a.txt": 7}\<close> is loaded as it is, and
  \<open>a.txt\<close> is reported modified with previous fingerprint 7. C6 says that the load yields
  the empty mapping and that the run reports every input file new.
\<close>

theorem C6_wrong_shape_history_not_fresh_start:
  "fst (loadHistory tracker_on null_history_world) = Inr HNull
   \<and> fst (trackChanges example_md5 tracker_on [(''a.txt'', file_x)] null_history_world)
       = Inl NullPropertyRead
   \<and> fst (loadHistory tracker_on number_history_world) = Inr (HObject [''a.txt'' \<mapsto> JNum 7])
   \<and> fst (trackChanges example_md5 tracker_on [(''a.txt'', file_x)] number_history_world) = Inr 0
   \<and> getFileState tracker_on
        (snd (trackChanges example_md5 tracker_on [(''a.txt'', file_x)] number_history_world))
        ''a.txt''
       = Some \<lparr>status = Modified, previousFingerprint = JNum 7\<rparr>"
  by (simp add: trackChanges_def loadHistory_def readFile_def Let_def createFingerprint_def
      file_x_def update_data_def example_md5_def obj_set_string_def clear_deleted_def Object_keys_def
      file_state_def history_get_def obj_get_def own_values_def Object_prototype_names_def
      new_state_def js_truthy_def js_strict_eq_def saveHistory_def mkdir_dirname_def
      writeFile_def set_fileStates_def getFileState_def)

text \<open>
  For a history file that cannot be read (it is missing, or the read fails) or whose
  text is not JSON, the load is as C6 says. In an enabled run with a history path
  \<open>loadHistory\<close> then yields the empty object; \<open>loadHistory\<close> throws nothing once a path is
  set, whatever the file holds; and when fingerprinting and saving succeed, the run
  succeeds and reports as new every input path that is not the name of a member
  inherited from \<open>Object.prototype\<close>.
\<close>

lemma trackChanges_unreadable_history_is_fresh_start:
  assumes "\<not> not_enabled t" and "\<not> no_historyPath t"
    and "fault w Reading (the (historyPath (config t))) \<noteq> None
         \<or> disk w (the (historyPath (config t))) = None
         \<or> disk w (the (historyPath (config t))) = Some Malformed"
    and "newFingerprints md5 files Map.empty = Inr fps"
    and "save_fault w (the (historyPath (config t))) = None"
  shows "fst (loadHistory t w) = Inr (HObject Map.empty)
       \<and> (\<forall>w0 e. fst (loadHistory t w0) \<noteq> Inl e)
       \<and> fst (trackChanges md5 t files w) = Inr (fileStates t)
       \<and> (\<forall>p. p \<in> set (Object_keys files) \<and> p \<notin> set Object_prototype_names \<longrightarrow>
              getFileState t (snd (trackChanges md5 t files w)) p
                = Some \<lparr>status = New, previousFingerprint = JUndefined\<rparr>)"
proof -
  let ?w1 = "w\<lparr>trace := trace w @ [ReadFile (the (historyPath (config t)))]\<rparr>"
  let ?m = "\<lambda>p. if p \<in> set (Object_keys files)
                 then (case file_state (HObject Map.empty) fps p of
                         Inr s \<Rightarrow> Some s | Inl e \<Rightarrow> None)
                 else None"
  have l: "loadHistory t w = (Inr (HObject Map.empty), ?w1)"
    by (rule loadHistory_empty [OF assms(2,3)])
  have never: "\<forall>w0 e. fst (loadHistory t w0) \<noteq> Inl e"
    using loadHistory_total [OF assms(2)] by (metis fst_conv sum.distinct(1))
  have sf: "save_fault (set_fileStates t ?m ?w1) (the (historyPath (config t))) = None"
    using assms(5) save_fault_same [of "set_fileStates t ?m ?w1" w]
    by (simp add: set_fileStates_def)
  have run: "trackChanges md5 t files w =
     (Inr (fileStates t), snd (saveHistory t fps (set_fileStates t ?m ?w1)))"
    using trackChanges_enabled_run [OF assms(1) l assms(4)]
      saveHistory_no_fault [OF assms(2) sf, of fps]
    by simp
  have "heap (snd (saveHistory t fps (set_fileStates t ?m ?w1))) (fileStates t) = ?m"
    using saveHistory_no_fault [OF assms(2) sf, of fps] by (simp add: set_fileStates_def)
  with run l never show ?thesis
    by (simp add: getFileState_def file_state_no_history)
qed

lemma trackChanges_unreadable_history_example:
  "fst (loadHistory tracker_on fresh_world) = Inr (HObject Map.empty)
   \<and> fst (trackChanges example_md5 tracker_on [(''a.txt'', file_x)] fresh_world) = Inr 0
   \<and> getFileState tracker_on
        (snd (trackChanges example_md5 tracker_on [(''a.txt'', file_x)] fresh_world)) ''a.txt''
       = Some \<lparr>status = New, previousFingerprint = JUndefined\<rparr>"
proof -
  have f: "newFingerprints example_md5 [(''a.txt'', file_x)] Map.empty
           = Inr [''a.txt'' \<mapsto> ''9dd4e461268c8034f5c8564e155c67a6'']"
    by (simp add: createFingerprint_def file_x_def update_data_def example_md5_def obj_set_string_def)
  have s: "save_fault fresh_world (the (historyPath (config tracker_on))) = None"
    by (simp add: save_fault_def)
  from trackChanges_unreadable_history_is_fresh_start [OF _ _ _ f s]
  show ?thesis
    by (simp add: Object_keys_def Object_prototype_names_def)
qed

text \<open>
  C7. In an enabled run that gets as far as saving (a history path is set, every record
  has a fingerprint, no read of the loaded history throws) and whose save meets the
  error \<open>e\<close>, \<open>trackChanges\<close> throws \<open>HISTORY_WRITE_ERROR\<close> with cause \<open>e\<close>; the disk is as
  before, and the tracker's map already holds the states of this run, for exactly the
  input paths.
\<close>

theorem C7_failed_save_keeps_new_states:
  assumes "\<not> not_enabled t" and "\<not> no_historyPath t"
    and "fst (loadHistory t w) = Inr h"
    and "newFingerprints md5 files Map.empty = Inr fps"
    and "h = HNull \<longrightarrow> files = []"
    and "save_fault w (the (historyPath (config t))) = Some e"
  shows "fst (trackChanges md5 t files w) = Inl (ChangeTrackerError HISTORY_WRITE_ERROR (Some e))
       \<and> disk (snd (trackChanges md5 t files w)) = disk w
       \<and> (\<forall>p. getFileState t (snd (trackChanges md5 t files w)) p
                = (if p \<in> set (Object_keys files)
                   then (case file_state h fps p of Inr s \<Rightarrow> Some s | Inl e \<Rightarrow> None)
                   else None))"
proof -
  obtain w1 where l: "loadHistory t w = (Inr h, w1)"
    using assms(3) by (cases "loadHistory t w") simp
  from loadHistory_frame [OF l]
  have w1: "w1 = w\<lparr>trace := trace w @ [ReadFile (the (historyPath (config t)))]\<rparr>" by simp
  let ?m = "\<lambda>p. if p \<in> set (Object_keys files)
                 then (case file_state h fps p of Inr s \<Rightarrow> Some s | Inl e \<Rightarrow> None)
                 else None"
  have sf: "save_fault (set_fileStates t ?m w1) (the (historyPath (config t))) = Some e"
    using assms(6) w1 save_fault_same [of "set_fileStates t ?m w1" w]
    by (simp add: set_fileStates_def)
  from saveHistory_fault [OF assms(2) sf, of fps]
  obtain w2 where s: "saveHistory t fps (set_fileStates t ?m w1)
                      = (Inl (ChangeTrackerError HISTORY_WRITE_ERROR (Some e)), w2)"
    and d: "disk w2 = disk w" and hp: "heap w2 = heap (set_fileStates t ?m w1)"
    using w1
    by (cases "saveHistory t fps (set_fileStates t ?m w1)") (simp add: set_fileStates_def)
  have "trackChanges md5 t files w
        = (Inl (ChangeTrackerError HISTORY_WRITE_ERROR (Some e)), w2)"
    using trackChanges_enabled_run [OF assms(1) l assms(4,5)] s by simp
  with d hp show ?thesis
    by (simp add: getFileState_def set_fileStates_def)
qed

theorem C7_failed_save_keeps_new_states_witness:
  "fst (trackChanges example_md5 tracker_on [(''a.txt'', file_x)] readonly_world)
     = Inl (ChangeTrackerError HISTORY_WRITE_ERROR (Some EACCES))
   \<and> disk (snd (trackChanges example_md5 tracker_on [(''a.txt'', file_x)] readonly_world))
       ''history.json'' = None
   \<and> getFileState tracker_on
        (snd (trackChanges example_md5 tracker_on [(''a.txt'', file_x)] readonly_world)) ''a.txt''
       = Some \<lparr>status = New, previousFingerprint = JUndefined\<rparr>"
proof -
  have l: "fst (loadHistory tracker_on readonly_world) = Inr (HObject Map.empty)"
    by (simp add: loadHistory_def readFile_def Let_def)
  have f: "newFingerprints example_md5 [(''a.txt'', file_x)] Map.empty
           = Inr [''a.txt'' \<mapsto> ''9dd4e461268c8034f5c8564e155c67a6'']"
    by (simp add: createFingerprint_def file_x_def update_data_def example_md5_def obj_set_string_def)
  have s: "save_fault readonly_world (the (historyPath (config tracker_on))) = Some EACCES"
    by (simp add: save_fault_def)
  from C7_failed_save_keeps_new_states [OF _ _ l f _ s]
  show ?thesis
    by (simp add: Object_keys_def file_state_def history_get_def obj_get_def own_values_def
        Object_prototype_names_def new_state_def js_truthy_def)
qed

text \<open>
  C8. With an empty or absent \<open>historyPath\<close>, an enabled \<open>trackChanges\<close>, \<open>clearHistory\<close>
  and the load and save steps all throw \<open>HISTORY_PATH_NOT_SET\<close> and leave the world as it
  was; the trace of filesystem calls is part of the world, so no file is read, written or
  removed.
\<close>

theorem C8_no_history_path:
  assumes "no_historyPath t"
  shows "(\<not> not_enabled t \<longrightarrow>
            trackChanges md5 t files w = (Inl (ChangeTrackerError HISTORY_PATH_NOT_SET None), w))
       \<and> clearHistory t w = (Inl (ChangeTrackerError HISTORY_PATH_NOT_SET None), w)
       \<and> loadHistory t w = (Inl (ChangeTrackerError HISTORY_PATH_NOT_SET None), w)
       \<and> saveHistory t fps w = (Inl (ChangeTrackerError HISTORY_PATH_NOT_SET None), w)"
  using assms by (simp add: trackChanges_def clearHistory_def loadHistory_def saveHistory_def)

theorem C8_no_history_path_witness:
  "no_historyPath tracker_no_path \<and> \<not> not_enabled tracker_no_path
   \<and> trackChanges example_md5 tracker_no_path [(''a.txt'', file_x)] fresh_world
       = (Inl (ChangeTrackerError HISTORY_PATH_NOT_SET None), fresh_world)
   \<and> clearHistory tracker_no_path fresh_world
       = (Inl (ChangeTrackerError HISTORY_PATH_NOT_SET None), fresh_world)
   \<and> trace fresh_world = []"
  using C8_no_history_path [of tracker_no_path example_md5 "[(''a.txt'', file_x)]" fresh_world]
  by (simp add: fresh_world_def)

text \<open>
  C9, as stated, fails: an enabled run returns the tracker's own map (address 0 here),
  not a copy. A caller that deletes or overwrites an entry of the returned map changes
  what \<open>getFileState\<close> answers.
\<close>

theorem C9_returned_map_is_internal_counterexample:
  "trackChanges example_md5 tracker_on [(''a.txt'', file_x)] fresh_world = (Inr 0, world_after_x)
   \<and> getFileState tracker_on world_after_x ''a.txt''
       = Some \<lparr>status = New, previousFingerprint = JUndefined\<rparr>
   \<and> getFileState tracker_on (Map_delete 0 ''a.txt'' world_after_x) ''a.txt'' = None
   \<and> getFileState tracker_on (Map_set 0 ''a.txt'' untracked world_after_x) ''a.txt''
       = Some untracked"
  by (simp add: run_x_fresh getFileState_def Map_delete_def Map_set_def)

text \<open>
  C9, amended. The map a successful disabled call returns is newly allocated and is not
  the tracker's: setting or deleting its entries leaves every answer of \<open>getFileState\<close>
  as it was. The map a successful enabled call returns is the tracker's own \<open>fileStates\<close>:
  an entry the caller sets or deletes in it is what \<open>getFileState\<close> then answers. The
  hypothesis on addresses says that the tracker's map has been allocated.
\<close>

theorem C9_returned_map_aliasing:
  assumes "trackChanges md5 t files w = (Inr a, w')" and "fileStates t < next_addr w"
  shows "(not_enabled t \<longrightarrow>
            a \<noteq> fileStates t
            \<and> (\<forall>k v p. getFileState t (Map_set a k v w') p = getFileState t w' p)
            \<and> (\<forall>k p. getFileState t (Map_delete a k w') p = getFileState t w' p))
       \<and> (\<not> not_enabled t \<longrightarrow>
            a = fileStates t
            \<and> (\<forall>k v. getFileState t (Map_set a k v w') k = Some v)
            \<and> (\<forall>k. getFileState t (Map_delete a k w') k = None))"
proof (cases "not_enabled t")
  case True
  with assms have "a = next_addr w" by (simp add: trackChanges_disabled)
  with assms(2) True show ?thesis
    by (simp add: getFileState_def Map_set_def Map_delete_def)
next
  case False
  from trackChanges_enabled_Inr [OF False assms(1)] have "a = fileStates t" by simp
  with False show ?thesis
    by (simp add: getFileState_def Map_set_def Map_delete_def)
qed

theorem C9_returned_map_aliasing_witness:
  "getFileState tracker_on (Map_delete 0 ''a.txt'' world_after_x) ''a.txt'' = None
   \<and> fst (trackChanges example_md5 tracker_off [(''a.txt'', file_x)] world_after_x) = Inr 1
   \<and> getFileState tracker_off
        (Map_delete 1 ''a.txt''
           (snd (trackChanges example_md5 tracker_off [(''a.txt'', file_x)] world_after_x))) ''a.txt''
       = Some \<lparr>status = New, previousFingerprint = JUndefined\<rparr>"
proof -
  have on: "getFileState tracker_on (Map_delete 0 ''a.txt'' world_after_x) ''a.txt'' = None"
    using C9_returned_map_aliasing [OF run_x_fresh] by simp
  obtain w2 where off: "trackChanges example_md5 tracker_off [(''a.txt'', file_x)] world_after_x
                        = (Inr 1, w2)"
    by (simp add: trackChanges_disabled)
  have "getFileState tracker_off (Map_delete 1 ''a.txt'' w2) ''a.txt''
        = getFileState tracker_off w2 ''a.txt''"
    using C9_returned_map_aliasing [OF off] by simp
  also have "\<dots> = getFileState tracker_off world_after_x ''a.txt''"
    using off by (auto simp: trackChanges_disabled getFileState_def)
  finally show ?thesis
    using on by (simp add: off getFileState_def)
qed

text \<open>
  C10. When \<open>clearHistory\<close> throws \<open>HISTORY_WRITE_ERROR\<close>, the cause is the error of the
  failed removal, and the tracker's states are as before the call: \<open>getFileState\<close>
  answers as it did.
\<close>

theorem C10_failed_clearHistory_keeps_state:
  assumes "clearHistory t w = (Inl (ChangeTrackerError HISTORY_WRITE_ERROR c), w')"
  shows "c = fault w Removing (the (historyPath (config t))) \<and> c \<noteq> None
       \<and> heap w' = heap w \<and> disk w' = disk w
       \<and> (\<forall>p. getFileState t w' p = getFileState t w p)"
  using assms
  by (auto simp: clearHistory_def getFileState_def split: if_splits prod.splits sum.splits
      dest!: rm_force_error)

theorem C10_failed_clearHistory_keeps_state_witness:
  "clearHistory tracker_on locked_world =
     (Inl (ChangeTrackerError HISTORY_WRITE_ERROR (Some EACCES)),
      locked_world\<lparr>trace := [Rm ''history.json'']\<rparr>)
   \<and> getFileState tracker_on (locked_world\<lparr>trace := [Rm ''history.json'']\<rparr>) ''a.txt''
       = Some \<lparr>status = New, previousFingerprint = JUndefined\<rparr>"
proof -
  have "getFileState tracker_on (locked_world\<lparr>trace := [Rm ''history.json'']\<rparr>) ''a.txt''
        = getFileState tracker_on locked_world ''a.txt''"
    using C10_failed_clearHistory_keeps_state [OF clearHistory_locked] by simp
  then show ?thesis
    by (simp add: clearHistory_locked)
       (simp add: getFileState_def locked_world_def tracker_on_def)
qed

end
